theory Spec2Isabelle
  imports Main
begin

section \<open>Values, rows and the activity table\<close>

text \<open>
  The class \<^verbatim>\<open>GanttPrototype\<close> of \<^verbatim>\<open>gantt_prototype.py\<close> keeps one pandas
  DataFrame \<^verbatim>\<open>self.df\<close> with the six columns set up by \<^verbatim>\<open>initialize_dataframe\<close>.
  Python is dynamically typed, so a cell holds any value; the model has the three kinds of
  scalar the program handles: integers, strings and timestamps. A timestamp is the number
  of nanoseconds since the epoch, as in pandas; the limits of the library's timestamp
  range, missing values (None, NaN, NaT) and column dtypes are outside the model.
\<close>

datatype pyval = PyInt int | PyStr string | PyTimestamp int

text \<open>A Python exception that propagates to the caller; its class is not modelled.\<close>

datatype error = PyException

record activity =
  ID :: pyval
  Nome_Attivita :: pyval
  Data_Inizio :: pyval
  Data_Fine :: pyval
  Persona_Riferimento :: pyval
  Stato :: pyval

text \<open>The rows of the DataFrame, in table order.\<close>

type_synonym dataframe = "activity list"

text \<open>
  An f-string, kept as its pieces: the literal text and the interpolated values.
  A printed line is one f-string; the output of an operation is the list of its lines.
\<close>

datatype piece = Lit string | Val pyval

type_synonym fstring = "piece list"

text \<open>The two bytes of the letter a with grave accent (UTF-8), as in \<^verbatim>\<open>Attivit\<close>+a-grave.\<close>

definition a_grave :: string where
  "a_grave = [CHR 0xC3, CHR 0xA0]"

definition col_Nome_Attivita :: string where
  "col_Nome_Attivita = ''Nome_Attivit'' @ a_grave"

definition initialize_dataframe :: dataframe where
  "initialize_dataframe = []"

definition columns :: "string list" where
  "columns = [''ID'', col_Nome_Attivita, ''Data_Inizio'', ''Data_Fine'',
              ''Persona_Riferimento'', ''Stato'']"

definition stato_default :: pyval where
  "stato_default = PyStr ''In corso''"

section \<open>add\_activity\<close>

text \<open>
  \<^verbatim>\<open>pd.to_datetime\<close> is library code: it is the parameter \<open>to_datetime\<close>, which gives
  the timestamp of a string or \<open>None\<close> where the library raises.
  \<^verbatim>\<open>if isinstance(d, str): d = pd.to_datetime(d)\<close>
\<close>

fun convert_date :: "(string \<Rightarrow> int option) \<Rightarrow> pyval \<Rightarrow> error + pyval" where
  "convert_date to_datetime (PyStr s) =
     (case to_datetime s of None \<Rightarrow> Inl PyException | Some t \<Rightarrow> Inr (PyTimestamp t))"
| "convert_date to_datetime v = Inr v"

fun is_PyInt :: "pyval \<Rightarrow> bool" where
  "is_PyInt (PyInt n) = True"
| "is_PyInt v = False"

fun the_int :: "pyval \<Rightarrow> int" where
  "the_int (PyInt n) = n"
| "the_int v = 0"

text \<open>
  \<^verbatim>\<open>self.df['ID'].max() + 1\<close> on a table with at least one row. On a column of integers
  it is the greatest id plus one. With any other value in the column Python raises: the
  maximum of mixed kinds, and a string or a timestamp plus 1, are type errors.
\<close>

definition ID_max_plus_1 :: "dataframe \<Rightarrow> error + pyval" where
  "ID_max_plus_1 df =
     (if list_all (\<lambda>r. is_PyInt (ID r)) df
      then Inr (PyInt (Max (set (map (\<lambda>r. the_int (ID r)) df)) + 1))
      else Inl PyException)"

definition generate_new_id :: "dataframe \<Rightarrow> error + pyval" where
  "generate_new_id df = (if length df = 0 then Inr (PyInt 1) else ID_max_plus_1 df)"

text \<open>\<^verbatim>\<open>add_activity\<close>: the new table and the returned id, or the exception.\<close>

definition add_activity ::
  "(string \<Rightarrow> int option) \<Rightarrow> dataframe \<Rightarrow> pyval \<Rightarrow> pyval \<Rightarrow> pyval \<Rightarrow> pyval \<Rightarrow> pyval
     \<Rightarrow> error + (dataframe \<times> pyval)" where
  "add_activity to_datetime df nome data_inizio data_fine persona stato =
     (case convert_date to_datetime data_inizio of
        Inl e \<Rightarrow> Inl e
      | Inr data_inizio' \<Rightarrow>
     (case convert_date to_datetime data_fine of
        Inl e \<Rightarrow> Inl e
      | Inr data_fine' \<Rightarrow>
     (case generate_new_id df of
        Inl e \<Rightarrow> Inl e
      | Inr new_id \<Rightarrow>
          Inr (df @ [\<lparr>ID = new_id, Nome_Attivita = nome, Data_Inizio = data_inizio',
                      Data_Fine = data_fine', Persona_Riferimento = persona,
                      Stato = stato\<rparr>],
               new_id))))"

section \<open>update\_activity\<close>

definition errore_non_trovata :: "pyval \<Rightarrow> fstring" where
  "errore_non_trovata i =
     [Lit (''Errore: Attivit'' @ a_grave @ '' con ID ''), Val i, Lit '' non trovata.'']"

definition avviso_campo :: "string \<Rightarrow> fstring" where
  "avviso_campo key =
     [Lit ''Avviso: Campo '', Lit [CHR 0x27], Val (PyStr key), Lit [CHR 0x27],
      Lit '' non presente nel DataFrame.'']"

text \<open>
  \<^verbatim>\<open>if key in kwargs and isinstance(kwargs[key], str): kwargs[key] = pd.to_datetime(kwargs[key])\<close>.
  The keyword arguments are a dict: a list of pairs in call order whose keys are distinct.
\<close>

definition convert_kwarg ::
  "(string \<Rightarrow> int option) \<Rightarrow> string \<Rightarrow> (string \<times> pyval) list \<Rightarrow> error + (string \<times> pyval) list" where
  "convert_kwarg to_datetime key kwargs =
     (case map_of kwargs key of
        Some (PyStr s) \<Rightarrow>
          (case to_datetime s of
             None \<Rightarrow> Inl PyException
           | Some t \<Rightarrow> Inr (map (\<lambda>(k, v). if k = key then (k, PyTimestamp t) else (k, v)) kwargs))
      | _ \<Rightarrow> Inr kwargs)"

text \<open>One cell of a row, by column name; \<open>key\<close> is one of \<^const>\<open>columns\<close>.\<close>

definition set_cell :: "string \<Rightarrow> pyval \<Rightarrow> activity \<Rightarrow> activity" where
  "set_cell key v r =
     (if key = ''ID'' then r\<lparr>ID := v\<rparr>
      else if key = col_Nome_Attivita then r\<lparr>Nome_Attivita := v\<rparr>
      else if key = ''Data_Inizio'' then r\<lparr>Data_Inizio := v\<rparr>
      else if key = ''Data_Fine'' then r\<lparr>Data_Fine := v\<rparr>
      else if key = ''Persona_Riferimento'' then r\<lparr>Persona_Riferimento := v\<rparr>
      else if key = ''Stato'' then r\<lparr>Stato := v\<rparr>
      else r)"

text \<open>\<^verbatim>\<open>self.df.loc[self.df['ID'] == id, key] = value\<close>\<close>

definition loc_assign :: "dataframe \<Rightarrow> pyval \<Rightarrow> string \<Rightarrow> pyval \<Rightarrow> dataframe" where
  "loc_assign df i key v = map (\<lambda>r. if ID r = i then set_cell key v r else r) df"

text \<open>
  The loop \<^verbatim>\<open>for key, value in kwargs.items()\<close>: the table after it and the warnings
  printed, in order. The rows to overwrite are looked up again at every field.
\<close>

fun update_fields :: "dataframe \<Rightarrow> pyval \<Rightarrow> (string \<times> pyval) list \<Rightarrow> dataframe \<times> fstring list" where
  "update_fields df i [] = (df, [])"
| "update_fields df i ((key, v) # kwargs) =
     (if key \<in> set columns then update_fields (loc_assign df i key v) i kwargs
      else (case update_fields df i kwargs of
              (df', out) \<Rightarrow> (df', avviso_campo key # out)))"

text \<open>\<^verbatim>\<open>update_activity\<close>: the table, the returned flag and the printed lines.\<close>

definition update_activity ::
  "(string \<Rightarrow> int option) \<Rightarrow> dataframe \<Rightarrow> pyval \<Rightarrow> (string \<times> pyval) list
     \<Rightarrow> error + (dataframe \<times> bool \<times> fstring list)" where
  "update_activity to_datetime df i kwargs =
     (if i \<notin> set (map ID df) then Inr (df, False, [errore_non_trovata i])
      else
        (case convert_kwarg to_datetime ''Data_Inizio'' kwargs of
           Inl e \<Rightarrow> Inl e
         | Inr kwargs1 \<Rightarrow>
        (case convert_kwarg to_datetime ''Data_Fine'' kwargs1 of
           Inl e \<Rightarrow> Inl e
         | Inr kwargs2 \<Rightarrow>
        (case update_fields df i kwargs2 of
           (df', out) \<Rightarrow> Inr (df', True, out)))))"

section \<open>delete\_activity\<close>

definition delete_activity :: "dataframe \<Rightarrow> pyval \<Rightarrow> dataframe \<times> bool \<times> fstring list" where
  "delete_activity df i =
     (if i \<notin> set (map ID df) then (df, False, [errore_non_trovata i])
      else (filter (\<lambda>r. ID r \<noteq> i) df, True, []))"

section \<open>generate\_gantt\<close>

text \<open>
  Python's truth value of an argument: \<^verbatim>\<open>None\<close>, the empty string and zero are false.
  The optional argument \<^verbatim>\<open>filter_person=None\<close> is a \<open>pyval option\<close>.
\<close>

fun truthy :: "pyval \<Rightarrow> bool" where
  "truthy (PyStr s) = (s \<noteq> [])"
| "truthy (PyInt n) = (n \<noteq> 0)"
| "truthy (PyTimestamp t) = True"

fun is_PyTimestamp :: "pyval \<Rightarrow> bool" where
  "is_PyTimestamp (PyTimestamp t) = True"
| "is_PyTimestamp v = False"

fun the_timestamp :: "pyval \<Rightarrow> int" where
  "the_timestamp (PyTimestamp t) = t"
| "the_timestamp v = 0"

text \<open>\<^verbatim>\<open>timedelta(days=n)\<close> in nanoseconds, and the whole days of a difference (\<^verbatim>\<open>.days\<close>).\<close>

definition day_ns :: int where
  "day_ns = 86400000000000"

definition timedelta_days :: "int \<Rightarrow> int" where
  "timedelta_days n = n * day_ns"

definition days :: "int \<Rightarrow> int" where
  "days delta = delta div day_ns"

text \<open>
  The first block of \<^verbatim>\<open>generate_gantt\<close>: the rows to draw and the suffix of the title.
  \<^verbatim>\<open>if filter_person:\<close> tests the truth value of the argument.
\<close>

definition filter_df :: "dataframe \<Rightarrow> pyval option \<Rightarrow> dataframe \<times> fstring" where
  "filter_df df filter_person =
     (case filter_person of
        None \<Rightarrow> (df, [])
      | Some p \<Rightarrow>
          if truthy p
          then (filter (\<lambda>r. Persona_Riferimento r = p) df, [Lit '' - '', Val p])
          else (df, []))"

definition colori_stati :: "(string \<times> string) list" where
  "colori_stati =
     [(''Non iniziato'', ''lightgrey''),
      (''In corso'', ''lightblue''),
      (''Completato'', ''lightgreen''),
      (''In ritardo'', ''salmon''),
      (''In pausa'', ''yellow'')]"

text \<open>\<^verbatim>\<open>colori_stati.get(task['Stato'], 'lightgrey')\<close>\<close>

fun colore :: "pyval \<Rightarrow> string" where
  "colore (PyStr s) = (case map_of colori_stati s of Some c \<Rightarrow> c | None \<Rightarrow> ''lightgrey'')"
| "colore v = ''lightgrey''"

text \<open>
  What is drawn: one \<^verbatim>\<open>ax.barh\<close> and one \<^verbatim>\<open>ax.text\<close> for every row, the title, the
  axis labels, the legend and the limits of the x axis. The constant styling (height,
  alpha, edge colour, grid, tick format) is left out.
\<close>

record barh =
  bar_y :: pyval
  bar_width :: int
  bar_left :: int
  bar_color :: string

record text_label =
  text_x :: int
  text_y :: pyval
  text_s :: pyval

record figure =
  title :: fstring
  xlabel :: string
  ylabel :: string
  bars :: "barh list"
  texts :: "text_label list"
  legend :: "(string \<times> string) list"
  xlim :: "int \<times> int"

definition draw_bar :: "activity \<Rightarrow> barh" where
  "draw_bar task =
     \<lparr>bar_y = Nome_Attivita task,
      bar_width = days (the_timestamp (Data_Fine task) - the_timestamp (Data_Inizio task)),
      bar_left = the_timestamp (Data_Inizio task),
      bar_color = colore (Stato task)\<rparr>"

definition draw_text :: "activity \<Rightarrow> text_label" where
  "draw_text task =
     \<lparr>text_x = the_timestamp (Data_Fine task) + timedelta_days 1,
      text_y = Nome_Attivita task,
      text_s = Persona_Riferimento task\<rparr>"

definition nessuna_attivita :: fstring where
  "nessuna_attivita =
     [Lit (''Nessuna attivit'' @ a_grave @ '' da visualizzare nel diagramma di Gantt.'')]"

definition diagramma_salvato :: "string \<Rightarrow> fstring" where
  "diagramma_salvato output_file =
     [Lit ''Diagramma di Gantt salvato in: '', Val (PyStr output_file)]"

text \<open>
  The figure of a non-empty set of rows whose dates are all timestamps. The rows are
  sorted by start date (\<open>sort_key\<close> keeps ties in table order; the library leaves their
  order open).
\<close>

definition make_figure :: "dataframe \<Rightarrow> fstring \<Rightarrow> figure" where
  "make_figure df_filtered title_suffix =
     (let df_sorted = sort_key (\<lambda>r. the_timestamp (Data_Inizio r)) df_filtered in
      \<lparr>title = Lit ''Diagramma di Gantt'' # title_suffix,
       xlabel = ''Data'',
       ylabel = ''Attivit'' @ a_grave,
       bars = map draw_bar df_sorted,
       texts = map draw_text df_sorted,
       legend = colori_stati,
       xlim = (Min (set (map (\<lambda>r. the_timestamp (Data_Inizio r)) df_sorted)) - timedelta_days 3,
               Max (set (map (\<lambda>r. the_timestamp (Data_Fine r)) df_sorted)) + timedelta_days 15)\<rparr>)"

text \<open>
  \<^verbatim>\<open>generate_gantt\<close>. The files on disk are a map from paths to figures;
  \<^verbatim>\<open>plt.savefig\<close> writes one. The result is the returned path (\<open>None\<close> for Python's
  \<^verbatim>\<open>None\<close>), the printed lines and the files afterwards. A date that is not a timestamp
  makes the sort or the subtraction \<^verbatim>\<open>end_date - start_date\<close> raise before anything is
  saved.
\<close>

definition generate_gantt ::
  "(string \<rightharpoonup> figure) \<Rightarrow> dataframe \<Rightarrow> string \<Rightarrow> pyval option
     \<Rightarrow> error + (string option \<times> fstring list \<times> (string \<rightharpoonup> figure))" where
  "generate_gantt files df output_file filter_person =
     (case filter_df df filter_person of
        (df_filtered, title_suffix) \<Rightarrow>
          if length df_filtered = 0 then Inr (None, [nessuna_attivita], files)
          else if \<not> list_all (\<lambda>r. is_PyTimestamp (Data_Inizio r) \<and> is_PyTimestamp (Data_Fine r))
                     df_filtered
          then Inl PyException
          else Inr (Some output_file, [diagramma_salvato output_file],
                    files(output_file \<mapsto> make_figure df_filtered title_suffix)))"

section \<open>Calendar dates and the example of the main block\<close>

text \<open>
  The day number of a date of the proleptic Gregorian calendar, counted from 1970-01-01,
  and the timestamp of its midnight: what the library gives for a date \<^verbatim>\<open>'YYYY-MM-DD'\<close>.
\<close>

definition days_from_civil :: "int \<Rightarrow> int \<Rightarrow> int \<Rightarrow> int" where
  "days_from_civil y m d =
     (let y' = (if m \<le> 2 then y - 1 else y);
          era = y' div 400;
          yoe = y' - era * 400;
          doy = (153 * (if m > 2 then m - 3 else m + 9) + 2) div 5 + d - 1;
          doe = yoe * 365 + yoe div 4 - yoe div 100 + doy
      in era * 146097 + doe - 719468)"

definition Timestamp :: "int \<Rightarrow> int \<Rightarrow> int \<Rightarrow> pyval" where
  "Timestamp y m d = PyTimestamp (days_from_civil y m d * day_ns)"

text \<open>A \<open>to_datetime\<close> for the date strings of the example in the main block.\<close>

definition to_datetime_esempio :: "string \<Rightarrow> int option" where
  "to_datetime_esempio s =
     map_of
       [(''2024-05-01'', days_from_civil 2024 5 1 * day_ns),
        (''2024-05-10'', days_from_civil 2024 5 10 * day_ns),
        (''2024-05-15'', days_from_civil 2024 5 15 * day_ns),
        (''2024-05-25'', days_from_civil 2024 5 25 * day_ns),
        (''2024-05-30'', days_from_civil 2024 5 30 * day_ns),
        (''2024-06-01'', days_from_civil 2024 6 1 * day_ns),
        (''2024-06-05'', days_from_civil 2024 6 5 * day_ns),
        (''2024-06-10'', days_from_civil 2024 6 10 * day_ns),
        (''2024-06-15'', days_from_civil 2024 6 15 * day_ns)] s"

text \<open>The table after the five \<^verbatim>\<open>add_activity\<close> calls of the main block.\<close>

definition esempio :: dataframe where
  "esempio =
     [\<lparr>ID = PyInt 1, Nome_Attivita = PyStr ''Sviluppo frontend'',
       Data_Inizio = Timestamp 2024 5 1, Data_Fine = Timestamp 2024 5 15,
       Persona_Riferimento = PyStr ''Marco'', Stato = PyStr ''In corso''\<rparr>,
      \<lparr>ID = PyInt 2, Nome_Attivita = PyStr ''Sviluppo backend'',
       Data_Inizio = Timestamp 2024 5 10, Data_Fine = Timestamp 2024 5 30,
       Persona_Riferimento = PyStr ''Laura'', Stato = PyStr ''Non iniziato''\<rparr>,
      \<lparr>ID = PyInt 3, Nome_Attivita = PyStr ''Testing'',
       Data_Inizio = Timestamp 2024 5 25, Data_Fine = Timestamp 2024 6 5,
       Persona_Riferimento = PyStr ''Marco'', Stato = PyStr ''Non iniziato''\<rparr>,
      \<lparr>ID = PyInt 4, Nome_Attivita = PyStr ''Documentazione'',
       Data_Inizio = Timestamp 2024 6 1, Data_Fine = Timestamp 2024 6 10,
       Persona_Riferimento = PyStr ''Giulia'', Stato = PyStr ''Non iniziato''\<rparr>,
      \<lparr>ID = PyInt 5, Nome_Attivita = PyStr ''Deployment'',
       Data_Inizio = Timestamp 2024 6 10, Data_Fine = Timestamp 2024 6 15,
       Persona_Riferimento = PyStr ''Laura'', Stato = PyStr ''Non iniziato''\<rparr>]"

section \<open>The example table\<close>

lemma esempio_ids: "map ID esempio = [PyInt 1, PyInt 2, PyInt 3, PyInt 4, PyInt 5]"
  by (simp add: esempio_def)

text \<open>The five calls of the main block build the table row by row, with the ids 1 to 5.\<close>

lemma esempio_main_block:
  "add_activity to_datetime_esempio initialize_dataframe (PyStr ''Sviluppo frontend'')
       (PyStr ''2024-05-01'') (PyStr ''2024-05-15'') (PyStr ''Marco'') (PyStr ''In corso'')
     = Inr (take 1 esempio, PyInt 1)"
  "add_activity to_datetime_esempio (take 1 esempio) (PyStr ''Sviluppo backend'')
       (PyStr ''2024-05-10'') (PyStr ''2024-05-30'') (PyStr ''Laura'') (PyStr ''Non iniziato'')
     = Inr (take 2 esempio, PyInt 2)"
  "add_activity to_datetime_esempio (take 2 esempio) (PyStr ''Testing'')
       (PyStr ''2024-05-25'') (PyStr ''2024-06-05'') (PyStr ''Marco'') (PyStr ''Non iniziato'')
     = Inr (take 3 esempio, PyInt 3)"
  "add_activity to_datetime_esempio (take 3 esempio) (PyStr ''Documentazione'')
       (PyStr ''2024-06-01'') (PyStr ''2024-06-10'') (PyStr ''Giulia'') (PyStr ''Non iniziato'')
     = Inr (take 4 esempio, PyInt 4)"
  "add_activity to_datetime_esempio (take 4 esempio) (PyStr ''Deployment'')
       (PyStr ''2024-06-10'') (PyStr ''2024-06-15'') (PyStr ''Laura'') (PyStr ''Non iniziato'')
     = Inr (esempio, PyInt 5)"
  by (simp_all add: esempio_def add_activity_def generate_new_id_def ID_max_plus_1_def
      to_datetime_esempio_def Timestamp_def initialize_dataframe_def)

section \<open>Ids handed out by add\_activity\<close>

lemma generate_new_id_Inr:
  assumes "generate_new_id df = Inr new_id"
  shows "new_id = PyInt (if df = [] then 1 else Max (set (map (\<lambda>r. the_int (ID r)) df)) + 1)"
    and "\<forall>r\<in>set df. is_PyInt (ID r) \<and> the_int (ID r) < the_int new_id"
proof -
  show "new_id = PyInt (if df = [] then 1 else Max (set (map (\<lambda>r. the_int (ID r)) df)) + 1)"
    using assms by (auto simp: generate_new_id_def ID_max_plus_1_def split: if_splits)
  show "\<forall>r\<in>set df. is_PyInt (ID r) \<and> the_int (ID r) < the_int new_id"
  proof
    fix r assume r: "r \<in> set df"
    then have ne: "df \<noteq> []" by auto
    with assms have all: "list_all (\<lambda>r. is_PyInt (ID r)) df"
      and nid: "new_id = PyInt (Max (set (map (\<lambda>r. the_int (ID r)) df)) + 1)"
      by (auto simp: generate_new_id_def ID_max_plus_1_def split: if_splits)
    from r have "the_int (ID r) \<le> Max (set (map (\<lambda>r. the_int (ID r)) df))"
      by (intro Max_ge) auto
    with all r nid show "is_PyInt (ID r) \<and> the_int (ID r) < the_int new_id"
      by (auto simp: list_all_iff)
  qed
qed

lemma generate_new_id_total:
  "list_all (\<lambda>r. is_PyInt (ID r)) df \<Longrightarrow> \<exists>n. generate_new_id df = Inr (PyInt n)"
  by (simp add: generate_new_id_def ID_max_plus_1_def)

lemma add_activity_Inr:
  assumes "add_activity to_datetime df nome data_inizio data_fine persona stato = Inr (df', new_id)"
  shows "generate_new_id df = Inr new_id"
    and "\<exists>row. df' = df @ [row] \<and> ID row = new_id"
  using assms by (auto simp: add_activity_def split: sum.splits)

text \<open>
  Claim C1, as the program has it. Whenever \<^verbatim>\<open>add_activity\<close> returns, the id it returns
  is 1 on an empty table and the greatest id of the table plus one otherwise; the appended
  row carries it; it is greater than every id of the table, so the next add returns exactly
  one more. After deleting the row with the greatest id \<open>m\<close>, the next add takes the greatest
  id of the rows that are left plus one (1 when none is left), which is at most \<open>m\<close> when rows
  are left: the id comes from the current maximum, and the deleted id can be handed out
  again.
\<close>

theorem add_activity_new_id:
  "(add_activity to_datetime df nome data_inizio data_fine persona stato = Inr (df', new_id) \<longrightarrow>
      new_id = PyInt (if df = [] then 1 else Max (set (map (\<lambda>r. the_int (ID r)) df)) + 1) \<and>
      (\<exists>row. df' = df @ [row] \<and> ID row = new_id) \<and>
      (\<forall>r\<in>set df. is_PyInt (ID r) \<and> the_int (ID r) < the_int new_id) \<and>
      (\<forall>df'' next_id.
          add_activity to_datetime df' nome2 data_inizio2 data_fine2 persona2 stato2
            = Inr (df'', next_id) \<longrightarrow>
          the_int next_id = the_int new_id + 1)) \<and>
   (delete_activity dfa (PyInt m) = (df1, True, out) \<and>
    m = Max (set (map (\<lambda>r. the_int (ID r)) dfa)) \<and>
    add_activity to_datetime df1 nome3 data_inizio3 data_fine3 persona3 stato3 = Inr (df2, j) \<longrightarrow>
      j = PyInt (if df1 = [] then 1 else Max (set (map (\<lambda>r. the_int (ID r)) df1)) + 1) \<and>
      (df1 \<noteq> [] \<longrightarrow> the_int j \<le> m))"
proof (intro conjI impI)
  assume a: "add_activity to_datetime df nome data_inizio data_fine persona stato = Inr (df', new_id)"
  from add_activity_Inr [OF a] have g: "generate_new_id df = Inr new_id"
    and row: "\<exists>row. df' = df @ [row] \<and> ID row = new_id" by auto
  show "new_id = PyInt (if df = [] then 1 else Max (set (map (\<lambda>r. the_int (ID r)) df)) + 1)"
    by (rule generate_new_id_Inr(1) [OF g])
  show "\<exists>row. df' = df @ [row] \<and> ID row = new_id" by (rule row)
  show lt: "\<forall>r\<in>set df. is_PyInt (ID r) \<and> the_int (ID r) < the_int new_id"
    by (rule generate_new_id_Inr(2) [OF g])
  show "\<forall>df'' next_id.
          add_activity to_datetime df' nome2 data_inizio2 data_fine2 persona2 stato2
            = Inr (df'', next_id) \<longrightarrow>
          the_int next_id = the_int new_id + 1"
  proof (intro allI impI)
    fix df'' next_id
    assume b: "add_activity to_datetime df' nome2 data_inizio2 data_fine2 persona2 stato2
                 = Inr (df'', next_id)"
    from add_activity_Inr(1) [OF b] have g': "generate_new_id df' = Inr next_id" .
    from row obtain r where df': "df' = df @ [r]" and r: "ID r = new_id" by auto
    have "Max (set (map (\<lambda>r. the_int (ID r)) df')) = the_int new_id"
    proof (rule Max_eqI)
      show "finite (set (map (\<lambda>r. the_int (ID r)) df'))" by simp
      show "the_int new_id \<in> set (map (\<lambda>r. the_int (ID r)) df')"
        using df' r by simp
      fix y assume "y \<in> set (map (\<lambda>r. the_int (ID r)) df')"
      with df' r lt show "y \<le> the_int new_id" by auto
    qed
    with generate_new_id_Inr(1) [OF g'] df' show "the_int next_id = the_int new_id + 1"
      by simp
  qed
next
  assume h: "delete_activity dfa (PyInt m) = (df1, True, out) \<and>
    m = Max (set (map (\<lambda>r. the_int (ID r)) dfa)) \<and>
    add_activity to_datetime df1 nome3 data_inizio3 data_fine3 persona3 stato3 = Inr (df2, j)"
  then have g: "generate_new_id df1 = Inr j" by (auto dest: add_activity_Inr(1))
  show j: "j = PyInt (if df1 = [] then 1 else Max (set (map (\<lambda>r. the_int (ID r)) df1)) + 1)"
    by (rule generate_new_id_Inr(1) [OF g])
  assume ne1: "df1 \<noteq> []"
  from h have df1: "df1 = filter (\<lambda>r. ID r \<noteq> PyInt m) dfa"
    by (auto simp: delete_activity_def split: if_splits)
  from h have m: "m = Max (set (map (\<lambda>r. the_int (ID r)) dfa))" by simp
  have ints1: "\<forall>r\<in>set df1. is_PyInt (ID r)"
    using generate_new_id_Inr(2) [OF g] by blast
  have "Max (set (map (\<lambda>r. the_int (ID r)) df1)) < m"
  proof (subst Max_less_iff)
    show "finite (set (map (\<lambda>r. the_int (ID r)) df1))" by simp
    show "set (map (\<lambda>r. the_int (ID r)) df1) \<noteq> {}" using ne1 by simp
    show "\<forall>a\<in>set (map (\<lambda>r. the_int (ID r)) df1). a < m"
    proof
      fix a assume "a \<in> set (map (\<lambda>r. the_int (ID r)) df1)"
      then obtain r where r: "r \<in> set df1" "a = the_int (ID r)" by auto
      with df1 have rdf: "r \<in> set dfa" and ne: "ID r \<noteq> PyInt m" by auto
      from rdf have le: "the_int (ID r) \<le> m"
        unfolding m by (intro Max_ge) auto
      from ints1 r(1) obtain n where n: "ID r = PyInt n" by (cases "ID r") auto
      with ne le r(2) show "a < m" by simp
    qed
  qed
  then have "Max (set (map (\<lambda>r. the_int (ID r)) df1)) + 1 \<le> m" by linarith
  moreover from j ne1 have "the_int j = Max (set (map (\<lambda>r. the_int (ID r)) df1)) + 1"
    by simp
  ultimately show "the_int j \<le> m" by (simp only:)
qed

text \<open>
  The theorem at the first two adds of the main block, and at the table with ids 2 to 5:
  deleting id 5 and adding again returns 5.
\<close>

theorem add_activity_new_id_witness:
  "add_activity to_datetime_esempio [] (PyStr ''Sviluppo frontend'') (PyStr ''2024-05-01'')
      (PyStr ''2024-05-15'') (PyStr ''Marco'') (PyStr ''In corso'') = Inr (take 1 esempio, PyInt 1) \<and>
   add_activity to_datetime_esempio (take 1 esempio) (PyStr ''Sviluppo backend'')
      (PyStr ''2024-05-10'') (PyStr ''2024-05-30'') (PyStr ''Laura'') (PyStr ''Non iniziato'')
     = Inr (take 2 esempio, PyInt 2) \<and>
   delete_activity (drop 1 esempio) (PyInt 5) = (take 3 (drop 1 esempio), True, []) \<and>
   5 = Max (set (map (\<lambda>r. the_int (ID r)) (drop 1 esempio))) \<and>
   add_activity to_datetime_esempio (take 3 (drop 1 esempio)) (PyStr ''Deployment'')
      (PyStr ''2024-06-10'') (PyStr ''2024-06-15'') (PyStr ''Laura'') (PyStr ''Non iniziato'')
     = Inr (take 3 (drop 1 esempio) @ [esempio ! 4], PyInt 5)"
  using add_activity_new_id [where to_datetime = to_datetime_esempio and df = "[]"
      and nome = "PyStr ''Sviluppo frontend''" and data_inizio = "PyStr ''2024-05-01''"
      and data_fine = "PyStr ''2024-05-15''" and persona = "PyStr ''Marco''"
      and stato = "PyStr ''In corso''" and df' = "take 1 esempio" and new_id = "PyInt 1"
      and ?nome2.0 = "PyStr ''Sviluppo backend''" and ?data_inizio2.0 = "PyStr ''2024-05-10''"
      and ?data_fine2.0 = "PyStr ''2024-05-30''" and ?persona2.0 = "PyStr ''Laura''"
      and ?stato2.0 = "PyStr ''Non iniziato''"
      and dfa = "drop 1 esempio" and m = 5 and ?df1.0 = "take 3 (drop 1 esempio)" and out = "[]"
      and ?nome3.0 = "PyStr ''Deployment''" and ?data_inizio3.0 = "PyStr ''2024-06-10''"
      and ?data_fine3.0 = "PyStr ''2024-06-15''" and ?persona3.0 = "PyStr ''Laura''"
      and ?stato3.0 = "PyStr ''Non iniziato''"
      and ?df2.0 = "take 3 (drop 1 esempio) @ [esempio ! 4]" and j = "PyInt 5"]
  by (simp add: esempio_def add_activity_def generate_new_id_def ID_max_plus_1_def
      to_datetime_esempio_def Timestamp_def delete_activity_def)

text \<open>
  Claim C1 as it is written fails: with ids 1 and 2 in the table, deleting id 2 and adding
  a new activity returns 2 again, which is not the previous maximum plus one (3) and is an
  id that was in use before.
\<close>

theorem add_after_delete_reuses_id:
  "delete_activity (take 2 esempio) (PyInt 2) = (take 1 esempio, True, []) \<and>
   Max (set (map (\<lambda>r. the_int (ID r)) (take 2 esempio))) = 2 \<and>
   add_activity to_datetime_esempio (take 1 esempio) (PyStr ''Testing'') (PyStr ''2024-05-25'')
       (PyStr ''2024-06-05'') (PyStr ''Marco'') (PyStr ''Non iniziato'')
     = Inr (take 1 esempio @ [(esempio ! 2)\<lparr>ID := PyInt 2\<rparr>], PyInt 2) \<and>
   PyInt 2 \<noteq> PyInt (Max (set (map (\<lambda>r. the_int (ID r)) (take 2 esempio))) + 1) \<and>
   PyInt 2 \<in> set (map ID (take 2 esempio))"
  by (simp add: esempio_def add_activity_def generate_new_id_def ID_max_plus_1_def
      to_datetime_esempio_def Timestamp_def delete_activity_def)

section \<open>Updating an id that is not in the table\<close>

text \<open>
  Claim C3. When no row has the given id, \<^verbatim>\<open>update_activity\<close> returns \<^verbatim>\<open>False\<close>, prints
  the not-found line and leaves the table as it was, whatever fields are passed.
\<close>

theorem update_activity_not_found:
  "i \<notin> set (map ID df) \<Longrightarrow>
     update_activity to_datetime df i kwargs = Inr (df, False, [errore_non_trovata i])"
  by (simp add: update_activity_def)

theorem update_activity_not_found_witness:
  "PyInt 7 \<notin> set (map ID esempio) \<and>
   update_activity to_datetime_esempio esempio (PyInt 7)
       [(''Stato'', PyStr ''Completato''), (''Data_Fine'', PyStr ''2024-06-15'')]
     = Inr (esempio, False, [errore_non_trovata (PyInt 7)])"
proof -
  have h: "PyInt 7 \<notin> set (map ID esempio)"
    by (simp add: esempio_ids)
  show ?thesis
    using h update_activity_not_found [OF h] by simp
qed

section \<open>Deleting\<close>

lemma filter_unique_id:
  assumes "distinct (map ID df)" and "i \<in> set (map ID df)"
  shows "\<exists>xs r ys. df = xs @ r # ys \<and> ID r = i \<and> filter (\<lambda>r. ID r \<noteq> i) df = xs @ ys"
proof -
  from assms(2) obtain r where r: "r \<in> set df" "ID r = i" by auto
  then obtain xs ys where df: "df = xs @ r # ys" by (auto dest: split_list)
  from assms(1) df r(2) have "\<forall>x\<in>set xs. ID x \<noteq> i" "\<forall>y\<in>set ys. ID y \<noteq> i"
    by (auto simp: image_iff)
  then have "filter (\<lambda>r. ID r \<noteq> i) xs = xs" "filter (\<lambda>r. ID r \<noteq> i) ys = ys"
    by (simp_all add: filter_id_conv)
  with df r(2) show ?thesis by auto
qed

text \<open>
  Claim C4. When no row has the id, \<^verbatim>\<open>delete_activity\<close> returns \<^verbatim>\<open>False\<close>, prints the
  not-found line and leaves the table as it was. When a row has it, the call returns
  \<^verbatim>\<open>True\<close>; the rows left are exactly the rows with another id, unchanged and in their
  order; and with unique ids the table was \<open>xs @ r # ys\<close> with \<open>r\<close> the row of that id, and
  is \<open>xs @ ys\<close> afterwards.
\<close>

theorem delete_activity_frame:
  "(i \<notin> set (map ID df) \<longrightarrow>
      delete_activity df i = (df, False, [errore_non_trovata i])) \<and>
   (i \<in> set (map ID df) \<longrightarrow>
      (\<exists>df'. delete_activity df i = (df', True, []) \<and>
         (\<forall>r. r \<in> set df' \<longleftrightarrow> r \<in> set df \<and> ID r \<noteq> i) \<and>
         filter (\<lambda>r. ID r \<noteq> i) df = df' \<and>
         (distinct (map ID df) \<longrightarrow>
            (\<exists>xs r ys. df = xs @ r # ys \<and> ID r = i \<and> df' = xs @ ys))))"
  using filter_unique_id [of df i]
  by (auto simp: delete_activity_def)

theorem delete_activity_frame_witness:
  "PyInt 9 \<notin> set (map ID esempio) \<and>
   delete_activity esempio (PyInt 9) = (esempio, False, [errore_non_trovata (PyInt 9)]) \<and>
   PyInt 3 \<in> set (map ID esempio) \<and> distinct (map ID esempio) \<and>
   delete_activity esempio (PyInt 3) = (take 2 esempio @ drop 3 esempio, True, [])"
  using delete_activity_frame [of "PyInt 9" esempio] delete_activity_frame [of "PyInt 3" esempio]
  by (simp add: esempio_ids) (simp add: esempio_def)

section \<open>No check of the date order in add\_activity\<close>

text \<open>
  Claim C5. \<^verbatim>\<open>add_activity\<close> never compares the two dates. For every pair of date
  arguments that convert (a string that \<open>to_datetime\<close> parses, or any value that is not a
  string), in whatever order they lie, and every table whose ids are integers, the call
  returns the new id and appends the row as given, with the converted dates.
\<close>

theorem add_activity_no_date_check:
  "convert_date to_datetime data_inizio = Inr inizio \<and>
   convert_date to_datetime data_fine = Inr fine \<and>
   list_all (\<lambda>r. is_PyInt (ID r)) df \<longrightarrow>
     (\<exists>new_id.
        add_activity to_datetime df nome data_inizio data_fine persona stato =
          Inr (df @ [\<lparr>ID = new_id, Nome_Attivita = nome, Data_Inizio = inizio,
                      Data_Fine = fine, Persona_Riferimento = persona, Stato = stato\<rparr>],
               new_id) \<and>
        generate_new_id df = Inr new_id)"
  using generate_new_id_total [of df]
  by (auto simp: add_activity_def)

text \<open>An activity that ends on 2024-05-01 and starts on 2024-06-15 is stored as given.\<close>

theorem add_activity_no_date_check_witness:
  "convert_date to_datetime_esempio (PyStr ''2024-06-15'') = Inr (Timestamp 2024 6 15) \<and>
   convert_date to_datetime_esempio (Timestamp 2024 5 1) = Inr (Timestamp 2024 5 1) \<and>
   list_all (\<lambda>r. is_PyInt (ID r)) esempio \<and>
   the_timestamp (Timestamp 2024 5 1) < the_timestamp (Timestamp 2024 6 15) \<and>
   add_activity to_datetime_esempio esempio (PyStr ''Al contrario'') (PyStr ''2024-06-15'')
       (Timestamp 2024 5 1) (PyStr ''Giulia'') stato_default =
     Inr (esempio @ [\<lparr>ID = PyInt 6, Nome_Attivita = PyStr ''Al contrario'',
                       Data_Inizio = Timestamp 2024 6 15, Data_Fine = Timestamp 2024 5 1,
                       Persona_Riferimento = PyStr ''Giulia'', Stato = PyStr ''In corso''\<rparr>],
          PyInt 6)"
  using add_activity_no_date_check [where to_datetime = to_datetime_esempio
      and data_inizio = "PyStr ''2024-06-15''" and inizio = "Timestamp 2024 6 15"
      and data_fine = "Timestamp 2024 5 1" and fine = "Timestamp 2024 5 1"
      and df = esempio and nome = "PyStr ''Al contrario''" and persona = "PyStr ''Giulia''"
      and stato = stato_default]
  by (simp add: esempio_def add_activity_def generate_new_id_def ID_max_plus_1_def
      to_datetime_esempio_def Timestamp_def stato_default_def days_from_civil_def day_ns_def)

section \<open>Uniqueness of ids\<close>

lemma map_ID_loc_assign:
  "map ID (loc_assign df i key v) =
     (if key = ''ID'' then map (\<lambda>x. if x = i then v else x) (map ID df) else map ID df)"
  by (auto simp: loc_assign_def set_cell_def)

lemma fst_update_fields_Cons:
  "fst (update_fields df i ((key, v) # kwargs)) =
     (if key \<in> set columns then fst (update_fields (loc_assign df i key v) i kwargs)
      else fst (update_fields df i kwargs))"
  by (simp split: prod.splits)

text \<open>Fields other than \<^verbatim>\<open>ID\<close> leave the id column as it is.\<close>

lemma update_fields_ID_untouched:
  "''ID'' \<notin> fst ` set kwargs \<Longrightarrow> map ID (fst (update_fields df i kwargs)) = map ID df"
proof (induction kwargs arbitrary: df)
  case Nil
  then show ?case by simp
next
  case (Cons kv kwargs)
  obtain key v where kv: "kv = (key, v)" by (cases kv)
  with Cons.prems have key: "key \<noteq> ''ID''" and rest: "''ID'' \<notin> fst ` set kwargs" by auto
  show ?case
  proof (cases "key \<in> set columns")
    case True
    with kv key Cons.IH [OF rest, of "loc_assign df i key v"] show ?thesis
      by (simp only: fst_update_fields_Cons map_ID_loc_assign if_True if_False)
  next
    case False
    with kv Cons.IH [OF rest, of df] show ?thesis
      by (simp only: fst_update_fields_Cons if_False)
  qed
qed

text \<open>A field \<^verbatim>\<open>ID=v\<close> renames the id \<open>i\<close> to \<open>v\<close> in the id column.\<close>

lemma update_fields_ID_set:
  "distinct (map fst kwargs) \<Longrightarrow> map_of kwargs ''ID'' = Some v \<Longrightarrow>
     map ID (fst (update_fields df i kwargs)) = map (\<lambda>x. if x = i then v else x) (map ID df)"
proof (induction kwargs arbitrary: df)
  case Nil
  then show ?case by simp
next
  case (Cons kv kwargs)
  obtain key w where kv: "kv = (key, w)" by (cases kv)
  show ?case
  proof (cases "key = ''ID''")
    case True
    with kv Cons.prems have w: "w = v" and rest: "''ID'' \<notin> fst ` set kwargs" by auto
    have col: "''ID'' \<in> set columns" by (simp add: columns_def)
    from kv True w col update_fields_ID_untouched [OF rest, of "loc_assign df i ''ID'' v" i]
    show ?thesis by (simp only: fst_update_fields_Cons map_ID_loc_assign if_True refl)
  next
    case False
    with kv Cons.prems have d: "distinct (map fst kwargs)" and m: "map_of kwargs ''ID'' = Some v"
      by auto
    show ?thesis
    proof (cases "key \<in> set columns")
      case True
      with kv False Cons.IH [OF d m, of "loc_assign df i key w"] show ?thesis
        by (simp only: fst_update_fields_Cons map_ID_loc_assign if_True if_False)
    next
      case f: False
      with kv Cons.IH [OF d m, of df] show ?thesis
        by (simp only: fst_update_fields_Cons if_False)
    qed
  qed
qed

text \<open>Converting a date field keeps the keys and every other field.\<close>

lemma convert_kwarg_keys:
  "convert_kwarg to_datetime key kwargs = Inr kwargs' \<Longrightarrow>
     map fst kwargs' = map fst kwargs \<and>
     (\<forall>k. k \<noteq> key \<longrightarrow> map_of kwargs' k = map_of kwargs k)"
proof -
  have a: "map fst (map (\<lambda>(k, v). if k = key then (k, w) else (k, v)) kws) = map fst kws"
    for w :: pyval and kws :: "(string \<times> pyval) list"
    by (induction kws) auto
  have b: "k \<noteq> key \<Longrightarrow>
        map_of (map (\<lambda>(k, v). if k = key then (k, w) else (k, v)) kws) k = map_of kws k"
    for w :: pyval and kws :: "(string \<times> pyval) list" and k
    by (induction kws) auto
  assume "convert_kwarg to_datetime key kwargs = Inr kwargs'"
  then show ?thesis
    using a b
    by (auto simp: convert_kwarg_def split: option.splits pyval.splits)
qed

lemma distinct_rename:
  assumes "distinct xs" and "v = i \<or> v \<notin> set xs"
  shows "distinct (map (\<lambda>x. if x = i then v else x) xs)"
proof -
  have "inj_on (\<lambda>x. if x = i then v else x) (set xs)"
    using assms(2) by (auto simp: inj_on_def)
  with assms(1) show ?thesis by (simp add: distinct_map)
qed

lemma update_activity_Inr:
  assumes "update_activity to_datetime df i kwargs = Inr (df', b, out)"
  shows "(i \<notin> set (map ID df) \<and> df' = df \<and> \<not> b) \<or>
         (i \<in> set (map ID df) \<and> b \<and>
          (\<exists>kwargs'. map fst kwargs' = map fst kwargs \<and>
                      map_of kwargs' ''ID'' = map_of kwargs ''ID'' \<and>
                      update_fields df i kwargs' = (df', out)))"
proof (cases "i \<in> set (map ID df)")
  case False
  with assms show ?thesis by (simp add: update_activity_def)
next
  case True
  with assms obtain k1 k2 where
    k1: "convert_kwarg to_datetime ''Data_Inizio'' kwargs = Inr k1" and
    k2: "convert_kwarg to_datetime ''Data_Fine'' k1 = Inr k2" and
    u: "update_fields df i k2 = (df', out)" and b: b
    by (auto simp: update_activity_def split: sum.splits prod.splits)
  from convert_kwarg_keys [OF k1] convert_kwarg_keys [OF k2]
  have "map fst k2 = map fst kwargs" "map_of k2 ''ID'' = map_of kwargs ''ID''"
    by simp_all
  with True u b show ?thesis by blast
qed

text \<open>
  Claim C2, as the program has it. The ids of the empty table are unique, and on a table
  with unique ids every operation that returns keeps them unique: \<^verbatim>\<open>add_activity\<close>,
  \<^verbatim>\<open>delete_activity\<close>, and \<^verbatim>\<open>update_activity\<close> when its fields do not name the column
  \<^verbatim>\<open>ID\<close>, or give it the id of the updated row itself or a value that no row holds.
\<close>

theorem id_unique_preserved:
  "distinct (map ID initialize_dataframe) \<and>
   (distinct (map ID df) \<longrightarrow>
      (add_activity to_datetime df nome data_inizio data_fine persona stato = Inr (df1, new_id)
         \<longrightarrow> distinct (map ID df1)) \<and>
      (delete_activity df i = (df2, b2, out2) \<longrightarrow> distinct (map ID df2)) \<and>
      (update_activity to_datetime df i kwargs = Inr (df3, b3, out3) \<and>
       distinct (map fst kwargs) \<and>
       (\<forall>v. map_of kwargs ''ID'' = Some v \<longrightarrow> v = i \<or> v \<notin> set (map ID df))
         \<longrightarrow> distinct (map ID df3)))"
proof (intro conjI impI)
  show "distinct (map ID initialize_dataframe)" by (simp add: initialize_dataframe_def)
next
  assume d: "distinct (map ID df)"
  assume a: "add_activity to_datetime df nome data_inizio data_fine persona stato = Inr (df1, new_id)"
  from add_activity_Inr [OF a] obtain row where
    g: "generate_new_id df = Inr new_id" and df1: "df1 = df @ [row]" "ID row = new_id" by auto
  have "new_id \<notin> set (map ID df)"
  proof
    assume "new_id \<in> set (map ID df)"
    then obtain r where "r \<in> set df" "ID r = new_id" by auto
    with generate_new_id_Inr(2) [OF g] show False by auto
  qed
  with d df1 show "distinct (map ID df1)" by simp
next
  assume d: "distinct (map ID df)"
  assume "delete_activity df i = (df2, b2, out2)"
  then have "df2 = df \<or> df2 = filter (\<lambda>r. ID r \<noteq> i) df"
    by (auto simp: delete_activity_def split: if_splits)
  with d show "distinct (map ID df2)" by (auto simp: distinct_map_filter)
next
  assume d: "distinct (map ID df)"
  assume h: "update_activity to_datetime df i kwargs = Inr (df3, b3, out3) \<and>
       distinct (map fst kwargs) \<and>
       (\<forall>v. map_of kwargs ''ID'' = Some v \<longrightarrow> v = i \<or> v \<notin> set (map ID df))"
  then have u: "update_activity to_datetime df i kwargs = Inr (df3, b3, out3)"
    and dk: "distinct (map fst kwargs)"
    and ok: "\<forall>v. map_of kwargs ''ID'' = Some v \<longrightarrow> v = i \<or> v \<notin> set (map ID df)"
    by simp_all
  from update_activity_Inr [OF u] show "distinct (map ID df3)"
  proof (elim disjE conjE exE)
    assume "df3 = df"
    with d show ?thesis by simp
  next
    fix kwargs'
    assume k: "map fst kwargs' = map fst kwargs" "map_of kwargs' ''ID'' = map_of kwargs ''ID''"
      and uf: "update_fields df i kwargs' = (df3, out3)"
    show ?thesis
    proof (cases "map_of kwargs ''ID''")
      case None
      then have "''ID'' \<notin> fst ` set kwargs'"
        using k by (metis map_of_eq_None_iff)
      from update_fields_ID_untouched [OF this, of df i] uf d show ?thesis by simp
    next
      case (Some v)
      with ok have v: "v = i \<or> v \<notin> set (map ID df)" by simp
      from dk k(1) have "distinct (map fst kwargs')" by simp
      from update_fields_ID_set [OF this, of v df i] Some k(2) uf
      have "map ID df3 = map (\<lambda>x. if x = i then v else x) (map ID df)" by simp
      with distinct_rename [OF d v] show ?thesis by simp
    qed
  qed
qed

text \<open>
  The theorem on the table of the first two activities: a third add, a delete, and an update
  that sets the state and renames id 2 to the unused id 7.
\<close>

theorem id_unique_preserved_witness:
  "distinct (map ID (take 2 esempio)) \<and>
   add_activity to_datetime_esempio (take 2 esempio) (PyStr ''Testing'') (PyStr ''2024-05-25'')
       (PyStr ''2024-06-05'') (PyStr ''Marco'') (PyStr ''Non iniziato'') = Inr (take 3 esempio, PyInt 3) \<and>
   distinct (map ID (take 3 esempio)) \<and>
   delete_activity (take 2 esempio) (PyInt 1) = (drop 1 (take 2 esempio), True, []) \<and>
   distinct (map ID (drop 1 (take 2 esempio))) \<and>
   update_activity to_datetime_esempio (take 2 esempio) (PyInt 2)
       [(''Stato'', PyStr ''Completato''), (''ID'', PyInt 7)]
     = Inr ([esempio ! 0, (esempio ! 1)\<lparr>ID := PyInt 7, Stato := PyStr ''Completato''\<rparr>], True, []) \<and>
   distinct (map fst [(''Stato'', PyStr ''Completato''), (''ID'', PyInt 7)]) \<and>
   map_of [(''Stato'', PyStr ''Completato''), (''ID'', PyInt 7)] ''ID'' = Some (PyInt 7) \<and>
   PyInt 7 \<notin> set (map ID (take 2 esempio)) \<and>
   distinct (map ID [esempio ! 0, (esempio ! 1)\<lparr>ID := PyInt 7, Stato := PyStr ''Completato''\<rparr>])"
  using id_unique_preserved [where df = "take 2 esempio" and to_datetime = to_datetime_esempio
      and nome = "PyStr ''Testing''" and data_inizio = "PyStr ''2024-05-25''"
      and data_fine = "PyStr ''2024-06-05''" and persona = "PyStr ''Marco''"
      and stato = "PyStr ''Non iniziato''" and ?df1.0 = "take 3 esempio" and new_id = "PyInt 3"
      and i = "PyInt 2" and kwargs = "[(''Stato'', PyStr ''Completato''), (''ID'', PyInt 7)]"
      and ?df3.0 = "[esempio ! 0, (esempio ! 1)\<lparr>ID := PyInt 7, Stato := PyStr ''Completato''\<rparr>]"
      and ?b3.0 = True and ?out3.0 = "[]"]
  by (simp add: esempio_def add_activity_def generate_new_id_def ID_max_plus_1_def
      to_datetime_esempio_def Timestamp_def delete_activity_def update_activity_def
      convert_kwarg_def columns_def loc_assign_def set_cell_def col_Nome_Attivita_def a_grave_def)

text \<open>
  Claim C2 as it is written fails: \<^verbatim>\<open>ID\<close> is a column like any other to
  \<^verbatim>\<open>update_activity\<close>. After the first two adds of the main block the ids are 1 and 2;
  \<^verbatim>\<open>update_activity(2, ID=1)\<close> returns \<^verbatim>\<open>True\<close> and leaves two rows with id 1.
\<close>

theorem update_id_breaks_uniqueness:
  "add_activity to_datetime_esempio initialize_dataframe (PyStr ''Sviluppo frontend'')
       (PyStr ''2024-05-01'') (PyStr ''2024-05-15'') (PyStr ''Marco'') (PyStr ''In corso'')
     = Inr (take 1 esempio, PyInt 1) \<and>
   add_activity to_datetime_esempio (take 1 esempio) (PyStr ''Sviluppo backend'')
       (PyStr ''2024-05-10'') (PyStr ''2024-05-30'') (PyStr ''Laura'') (PyStr ''Non iniziato'')
     = Inr (take 2 esempio, PyInt 2) \<and>
   distinct (map ID (take 2 esempio)) \<and>
   update_activity to_datetime_esempio (take 2 esempio) (PyInt 2) [(''ID'', PyInt 1)]
     = Inr ([esempio ! 0, (esempio ! 1)\<lparr>ID := PyInt 1\<rparr>], True, []) \<and>
   map ID [esempio ! 0, (esempio ! 1)\<lparr>ID := PyInt 1\<rparr>] = [PyInt 1, PyInt 1] \<and>
   \<not> distinct (map ID [esempio ! 0, (esempio ! 1)\<lparr>ID := PyInt 1\<rparr>])"
  by (simp add: esempio_def add_activity_def generate_new_id_def ID_max_plus_1_def
      to_datetime_esempio_def Timestamp_def update_activity_def initialize_dataframe_def
      convert_kwarg_def columns_def loc_assign_def set_cell_def col_Nome_Attivita_def a_grave_def)

section \<open>Recognized and unrecognized fields of an update\<close>

text \<open>
  An unrecognized field changes nothing and prints one warning; the loop goes on with the
  fields after it.
\<close>

lemma update_fields_unrecognized:
  "update_fields df i kwargs =
     (fst (update_fields df i (filter (\<lambda>(key, v). key \<in> set columns) kwargs)),
      map (\<lambda>(key, v). avviso_campo key) (filter (\<lambda>(key, v). key \<notin> set columns) kwargs))"
proof (induction kwargs arbitrary: df)
  case Nil
  then show ?case by simp
next
  case (Cons kv kwargs)
  obtain key v where kv: "kv = (key, v)" by (cases kv)
  show ?case
  proof (cases "key \<in> set columns")
    case True
    with kv Cons.IH [of "loc_assign df i key v"] show ?thesis by simp
  next
    case False
    with kv Cons.IH [of df] show ?thesis by (simp split: prod.splits)
  qed
qed

lemma update_fields_warnings:
  "snd (update_fields df i kwargs) =
     map avviso_campo (filter (\<lambda>key. key \<notin> set columns) (map fst kwargs))"
proof (induction kwargs arbitrary: df)
  case Nil
  then show ?case by simp
next
  case (Cons kv kwargs)
  obtain key v where kv: "kv = (key, v)" by (cases kv)
  show ?case
  proof (cases "key \<in> set columns")
    case True
    with kv Cons.IH [of "loc_assign df i key v"] show ?thesis by simp
  next
    case False
    with kv Cons.IH [of df] show ?thesis
      by (cases "update_fields df i kwargs") simp
  qed
qed

text \<open>
  For an id that is in the table and date fields that convert, \<^verbatim>\<open>update_activity\<close>
  returns \<^verbatim>\<open>True\<close>, prints one warning for every unrecognized field name, in call order,
  and the table is the one the recognized fields alone give.
\<close>

lemma update_activity_found:
  assumes "i \<in> set (map ID df)"
    and "convert_kwarg to_datetime ''Data_Inizio'' kwargs = Inr kwargs1"
    and "convert_kwarg to_datetime ''Data_Fine'' kwargs1 = Inr kwargs2"
  shows "update_activity to_datetime df i kwargs =
           Inr (fst (update_fields df i (filter (\<lambda>(key, v). key \<in> set columns) kwargs2)), True,
                map avviso_campo (filter (\<lambda>key. key \<notin> set columns) (map fst kwargs)))"
proof -
  from convert_kwarg_keys [OF assms(2)] convert_kwarg_keys [OF assms(3)]
  have keys: "map fst kwargs2 = map fst kwargs" by simp
  have "update_fields df i kwargs2 =
          (fst (update_fields df i (filter (\<lambda>(key, v). key \<in> set columns) kwargs2)),
           map avviso_campo (filter (\<lambda>key. key \<notin> set columns) (map fst kwargs)))"
    using update_fields_unrecognized [of df i kwargs2] update_fields_warnings [of df i kwargs2] keys
    by (metis prod.collapse fst_conv)
  with assms show ?thesis by (simp add: update_activity_def)
qed

text \<open>
  Claim C6 fails on the program at this call: on the table with the one activity of
  id 1, \<^verbatim>\<open>update_activity(1, ID=5, Stato='Completato')\<close> returns \<^verbatim>\<open>True\<close> and prints
  nothing, the id becomes 5, and the state is still \<^verbatim>\<open>'In corso'\<close>: the rows to
  overwrite are looked up by the old id again after the id has changed, so the recognized
  field \<^verbatim>\<open>Stato\<close> is not applied. With the same two fields in the other order both are
  applied.
\<close>

theorem update_id_then_field_lost:
  "PyInt 1 \<in> set (map ID (take 1 esempio)) \<and>
   update_activity to_datetime_esempio (take 1 esempio) (PyInt 1)
       [(''ID'', PyInt 5), (''Stato'', PyStr ''Completato'')]
     = Inr ([(esempio ! 0)\<lparr>ID := PyInt 5\<rparr>], True, []) \<and>
   Stato ((esempio ! 0)\<lparr>ID := PyInt 5\<rparr>) = PyStr ''In corso'' \<and>
   update_activity to_datetime_esempio (take 1 esempio) (PyInt 1)
       [(''Stato'', PyStr ''Completato''), (''ID'', PyInt 5)]
     = Inr ([(esempio ! 0)\<lparr>ID := PyInt 5, Stato := PyStr ''Completato''\<rparr>], True, [])"
  by (simp add: esempio_def Timestamp_def update_activity_def
      convert_kwarg_def columns_def loc_assign_def set_cell_def col_Nome_Attivita_def a_grave_def)

section \<open>Nothing to draw\<close>

text \<open>
  Claim C7. When the table is empty, or the person filter is in force and no row has that
  person, \<^verbatim>\<open>generate_gantt\<close> returns \<^verbatim>\<open>None\<close>, prints the notice and writes no file:
  the files are as before. No exception is raised.
\<close>

theorem generate_gantt_nothing_to_draw:
  "df = [] \<or> (filter_person = Some p \<and> truthy p \<and> (\<forall>r\<in>set df. Persona_Riferimento r \<noteq> p)) \<Longrightarrow>
     generate_gantt files df output_file filter_person = Inr (None, [nessuna_attivita], files)"
  by (auto simp: generate_gantt_def filter_df_def filter_empty_conv split: option.splits)

theorem generate_gantt_nothing_to_draw_witness:
  "generate_gantt Map.empty initialize_dataframe ''gantt_completo.png'' None
     = Inr (None, [nessuna_attivita], Map.empty) \<and>
   truthy (PyStr ''Anna'') \<and> list_all (\<lambda>r. Persona_Riferimento r \<noteq> PyStr ''Anna'') esempio \<and>
   generate_gantt Map.empty esempio ''gantt_Anna.png'' (Some (PyStr ''Anna''))
     = Inr (None, [nessuna_attivita], Map.empty)"
proof -
  have a: "list_all (\<lambda>r. Persona_Riferimento r \<noteq> PyStr ''Anna'') esempio"
    by (simp add: esempio_def)
  then have b: "\<forall>r\<in>set esempio. Persona_Riferimento r \<noteq> PyStr ''Anna''"
    by (simp add: list_all_iff)
  have c: "initialize_dataframe = []" by (simp add: initialize_dataframe_def)
  have t: "truthy (PyStr ''Anna'')" by simp
  from c have 1: "generate_gantt Map.empty initialize_dataframe ''gantt_completo.png'' None
     = Inr (None, [nessuna_attivita], Map.empty)"
    by (intro generate_gantt_nothing_to_draw) simp
  from b t have 2: "generate_gantt Map.empty esempio ''gantt_Anna.png'' (Some (PyStr ''Anna''))
     = Inr (None, [nessuna_attivita], Map.empty)"
    by (intro generate_gantt_nothing_to_draw [where p = "PyStr ''Anna''"]) simp
  from 1 2 a t show ?thesis by simp
qed

section \<open>Limits of the x axis\<close>

lemma xlim_make_figure:
  "xlim (make_figure df_filtered title_suffix) =
     (Min (set (map (\<lambda>r. the_timestamp (Data_Inizio r)) df_filtered)) - timedelta_days 3,
      Max (set (map (\<lambda>r. the_timestamp (Data_Fine r)) df_filtered)) + timedelta_days 15)"
  by (simp add: make_figure_def Let_def)

text \<open>
  Claim C8. When the rows left by the filter are not empty and their dates are timestamps,
  \<^verbatim>\<open>generate_gantt\<close> saves a figure whose x axis runs from the least start date of those
  rows minus 3 days to their greatest end date plus 15 days; and every call that returns a
  path has drawn a non-empty set of rows and saved a figure with these limits.
\<close>

theorem generate_gantt_xlim:
  "(fst (filter_df df filter_person) \<noteq> [] \<and>
    list_all (\<lambda>r. is_PyTimestamp (Data_Inizio r) \<and> is_PyTimestamp (Data_Fine r))
      (fst (filter_df df filter_person)) \<longrightarrow>
      (\<exists>fig. generate_gantt files df output_file filter_person =
                Inr (Some output_file, [diagramma_salvato output_file], files(output_file \<mapsto> fig)) \<and>
         xlim fig =
           (Min (set (map (\<lambda>r. the_timestamp (Data_Inizio r)) (fst (filter_df df filter_person))))
              - timedelta_days 3,
            Max (set (map (\<lambda>r. the_timestamp (Data_Fine r)) (fst (filter_df df filter_person))))
              + timedelta_days 15))) \<and>
   (generate_gantt files df output_file filter_person = Inr (Some path, out, files') \<longrightarrow>
      fst (filter_df df filter_person) \<noteq> [] \<and>
      (\<exists>fig. files' path = Some fig \<and>
         xlim fig =
           (Min (set (map (\<lambda>r. the_timestamp (Data_Inizio r)) (fst (filter_df df filter_person))))
              - timedelta_days 3,
            Max (set (map (\<lambda>r. the_timestamp (Data_Fine r)) (fst (filter_df df filter_person))))
              + timedelta_days 15)))"
  by (cases "filter_df df filter_person")
     (auto simp: generate_gantt_def xlim_make_figure split: if_splits)

text \<open>
  The example of the claim: the five activities of the main block start on 2024-05-01 at
  the earliest and end on 2024-06-15 at the latest; the axis runs from 2024-04-28 to
  2024-06-30.
\<close>

theorem generate_gantt_xlim_witness:
  "fst (filter_df esempio None) \<noteq> [] \<and>
   list_all (\<lambda>r. is_PyTimestamp (Data_Inizio r) \<and> is_PyTimestamp (Data_Fine r))
      (fst (filter_df esempio None)) \<and>
   Min (set (map (\<lambda>r. the_timestamp (Data_Inizio r)) esempio)) = the_timestamp (Timestamp 2024 5 1) \<and>
   Max (set (map (\<lambda>r. the_timestamp (Data_Fine r)) esempio)) = the_timestamp (Timestamp 2024 6 15) \<and>
   (\<exists>fig. generate_gantt Map.empty esempio ''gantt_completo.png'' None =
            Inr (Some ''gantt_completo.png'', [diagramma_salvato ''gantt_completo.png''],
                 [''gantt_completo.png'' \<mapsto> fig]) \<and>
      xlim fig = (the_timestamp (Timestamp 2024 4 28), the_timestamp (Timestamp 2024 6 30)))"
proof -
  have f: "filter_df esempio None = (esempio, [])" by (simp add: filter_df_def)
  have ne: "fst (filter_df esempio None) \<noteq> []" unfolding f by (simp add: esempio_def)
  have ts: "list_all (\<lambda>r. is_PyTimestamp (Data_Inizio r) \<and> is_PyTimestamp (Data_Fine r))
      (fst (filter_df esempio None))"
    unfolding f by (simp add: esempio_def Timestamp_def)
  have mn: "Min (set (map (\<lambda>r. the_timestamp (Data_Inizio r)) esempio)) = days_from_civil 2024 5 1 * day_ns"
    by (simp add: esempio_def Timestamp_def days_from_civil_def day_ns_def)
  have mx: "Max (set (map (\<lambda>r. the_timestamp (Data_Fine r)) esempio)) = days_from_civil 2024 6 15 * day_ns"
    by (simp add: esempio_def Timestamp_def days_from_civil_def day_ns_def)
  have lo: "days_from_civil 2024 5 1 * day_ns - timedelta_days 3 = days_from_civil 2024 4 28 * day_ns"
    by (simp add: days_from_civil_def day_ns_def timedelta_days_def)
  have hi: "days_from_civil 2024 6 15 * day_ns + timedelta_days 15 = days_from_civil 2024 6 30 * day_ns"
    by (simp add: days_from_civil_def day_ns_def timedelta_days_def)
  from generate_gantt_xlim [of esempio None Map.empty "''gantt_completo.png''"] ne ts
  obtain fig where
    "generate_gantt Map.empty esempio ''gantt_completo.png'' None =
       Inr (Some ''gantt_completo.png'', [diagramma_salvato ''gantt_completo.png''],
            [''gantt_completo.png'' \<mapsto> fig])"
    "xlim fig =
       (Min (set (map (\<lambda>r. the_timestamp (Data_Inizio r)) (fst (filter_df esempio None))))
          - timedelta_days 3,
        Max (set (map (\<lambda>r. the_timestamp (Data_Fine r)) (fst (filter_df esempio None))))
          + timedelta_days 15)"
    by blast
  with f mn mx lo hi ne ts show ?thesis
    by (auto simp: Timestamp_def)
qed

section \<open>The empty string as person filter\<close>

text \<open>
  Claim C10. \<^verbatim>\<open>generate_gantt\<close> with the person filter \<^verbatim>\<open>''\<close> does in every respect
  what it does with no filter: the filter is tested for its truth value, so no row is left
  out and the title has no suffix; the returned value, the printed lines and the files are
  the same.
\<close>

theorem generate_gantt_empty_string_filter:
  "generate_gantt files df output_file (Some (PyStr [])) = generate_gantt files df output_file None \<and>
   filter_df df (Some (PyStr [])) = (df, [])"
  by (simp add: generate_gantt_def filter_df_def)

end
